theory Spec2Isabelle
  imports
    Main
    "HOL-Library.Sublist"
    "HOL-Library.Multiset"
    "HOL-Library.Char_ord"
    "HOL-Library.List_Lexorder"
begin

section \<open>Data model\<close>

text \<open>
  The script \<^verbatim>\<open>detect_use_of_vendored_requests.py\<close> lists the Lambda functions of an
  account, downloads the deployment package of each Python function, and looks for
  vendored imports of botocore in its Python files.

  Python \<^verbatim>\<open>str\<close> and \<^verbatim>\<open>bytes\<close> values are lists of 8-bit characters. \<^verbatim>\<open>x in y\<close> on
  them is \<^const>\<open>sublist\<close>, \<^verbatim>\<open>startswith\<close> is \<^const>\<open>prefix\<close>, \<^verbatim>\<open>endswith\<close> is
  \<^const>\<open>suffix\<close>, and \<^verbatim>\<open>sorted\<close> on a list of strings is \<^const>\<open>sort\<close> under the
  lexicographic order on character codes. A \<^verbatim>\<open>dict\<close> is a map.
\<close>

datatype error =
    RuntimeError string
  | KeyError string
  | ValueError string
  | LibraryError string
      \<comment> \<open>an exception raised inside boto3, urllib, tempfile, shutil, \<^verbatim>\<open>open\<close> or \<^verbatim>\<open>print\<close>\<close>

type_synonym lambda_function = "string \<rightharpoonup> string"

text \<open>
  What the program does to the outside world, in the order it does it. \<open>Open\<close> is
  the opening of a file by the classifier, \<open>Print\<close> one line on standard output.
\<close>

datatype event =
    GetFunction string
  | UrlRetrieve string
  | Mkdtemp
  | UnpackArchive string string string
  | Open string
  | Print string

type_synonym state = "event list"

text \<open>
  The outside world, as the program observes it: the pages of the \<^verbatim>\<open>list_functions\<close>
  paginator (a page is the list under its \<^verbatim>\<open>"Functions"\<close> key; a failing request ends
  the sequence), the answers of \<^verbatim>\<open>get_function\<close> and \<^verbatim>\<open>urlretrieve\<close> (a file name and
  the response headers), the directory that the n-th call of \<^verbatim>\<open>tempfile.mkdtemp\<close>
  creates, the outcome of \<^verbatim>\<open>shutil.unpack_archive\<close>, the triples that \<^verbatim>\<open>os.walk\<close> yields
  for a directory, the bytes of a file opened in mode \<^verbatim>\<open>"rb"\<close>, the current
  directory, and what standard output does with a line (\<^verbatim>\<open>print\<close> raises
  \<^verbatim>\<open>UnicodeEncodeError\<close> when the encoding of the stream cannot encode the line, and
  then writes nothing of it).
\<close>

record env =
  paginate :: "(error + lambda_function list) list"
  get_function :: "string \<Rightarrow> error + (string \<rightharpoonup> (string \<rightharpoonup> string))"
  urlretrieve :: "string \<Rightarrow> error + string \<times> (string \<rightharpoonup> string)"
  mkdtemp :: "nat \<Rightarrow> error + string"
  unpack_archive :: "string \<Rightarrow> string \<Rightarrow> string \<Rightarrow> error + unit"
  os_walk :: "string \<Rightarrow> (string \<times> string list \<times> string list) list"
  open_rb :: "string \<Rightarrow> error + string"
  getcwd :: string
  stdout_write :: "string \<Rightarrow> error + unit"

definition getitem :: "(string \<rightharpoonup> 'v) \<Rightarrow> string \<Rightarrow> error + 'v" where
  "getitem d k = (case d k of None \<Rightarrow> Inl (KeyError k) | Some v \<Rightarrow> Inr v)"

section \<open>Library functions on strings and paths\<close>

definition newline :: char where
  "newline = CHR 0x0A"

text \<open>Iterating over a binary file yields its lines, each with its terminating newline.\<close>

fun readlines :: "string \<Rightarrow> string list" where
  "readlines [] = []"
| "readlines (c # cs) =
     (if c = newline then [c] # readlines cs
      else (case readlines cs of [] \<Rightarrow> [[c]] | l # ls \<Rightarrow> (c # l) # ls))"

fun split :: "char \<Rightarrow> string \<Rightarrow> string list" where
  "split sep [] = [[]]"
| "split sep (c # cs) =
     (if c = sep then [] # split sep cs
      else (case split sep cs of [] \<Rightarrow> [[c]] | l # ls \<Rightarrow> (c # l) # ls))"

text \<open>\<^verbatim>\<open>posixpath\<close>: \<^verbatim>\<open>isabs\<close>, \<^verbatim>\<open>join\<close>, \<^verbatim>\<open>normpath\<close>, \<^verbatim>\<open>abspath\<close>, \<^verbatim>\<open>commonprefix\<close>, \<^verbatim>\<open>relpath\<close>.\<close>

definition isabs :: "string \<Rightarrow> bool" where
  "isabs s = prefix ''/'' s"

definition join :: "string \<Rightarrow> string \<Rightarrow> string" where
  "join path b =
     (if prefix ''/'' b then b
      else if path = [] \<or> suffix ''/'' path then path @ b
      else path @ ''/'' @ b)"

fun normpath_comps :: "bool \<Rightarrow> string list \<Rightarrow> string list \<Rightarrow> string list" where
  "normpath_comps initial_slashes [] new_comps = new_comps"
| "normpath_comps initial_slashes (part # comps) new_comps =
     (if part = [] \<or> part = ''.'' then normpath_comps initial_slashes comps new_comps
      else if part \<noteq> ''..'' \<or> (\<not> initial_slashes \<and> new_comps = [])
              \<or> (new_comps \<noteq> [] \<and> last new_comps = ''..'')
        then normpath_comps initial_slashes comps (new_comps @ [part])
      else if new_comps \<noteq> [] then normpath_comps initial_slashes comps (butlast new_comps)
      else normpath_comps initial_slashes comps new_comps)"

fun sep_join :: "string list \<Rightarrow> string" where
  "sep_join [] = []"
| "sep_join [x] = x"
| "sep_join (x # y # ys) = x @ ''/'' @ sep_join (y # ys)"

definition normpath :: "string \<Rightarrow> string" where
  "normpath path =
     (if path = [] then ''.''
      else
        let initial_slashes :: nat =
              (if prefix ''/'' path
               then (if prefix ''//'' path \<and> \<not> prefix ''///'' path then 2 else 1)
               else 0);
            comps = normpath_comps (initial_slashes \<noteq> 0) (split CHR ''/'' path) [];
            path' = replicate initial_slashes CHR ''/'' @ sep_join comps
        in if path' = [] then ''.'' else path')"

definition abspath :: "env \<Rightarrow> string \<Rightarrow> string" where
  "abspath env path = normpath (if isabs path then path else join (getcwd env) path)"

fun commonprefix :: "'a list \<Rightarrow> 'a list \<Rightarrow> 'a list" where
  "commonprefix (x # xs) (y # ys) = (if x = y then x # commonprefix xs ys else [])"
| "commonprefix _ _ = []"

definition relpath :: "env \<Rightarrow> string \<Rightarrow> string \<Rightarrow> error + string" where
  "relpath env path start =
     (if path = [] then Inl (ValueError ''no path specified'')
      else
        let start_list = filter (\<lambda>x. x \<noteq> []) (split CHR ''/'' (abspath env start));
            path_list = filter (\<lambda>x. x \<noteq> []) (split CHR ''/'' (abspath env path));
            i = length (commonprefix start_list path_list);
            rel_list = replicate (length start_list - i) ''..'' @ drop i path_list
        in if rel_list = [] then Inr ''.'' else Inr (foldl join (hd rel_list) (tl rel_list)))"

section \<open>The program\<close>

subsection \<open>\<^verbatim>\<open>get_all_functions\<close>\<close>

text \<open>
  The generator yields the functions of each page in turn; a failing page request is
  raised when the iteration reaches it.
\<close>

fun yield_from_pages :: "(error + lambda_function list) list \<Rightarrow> (error + lambda_function) list" where
  "yield_from_pages [] = []"
| "yield_from_pages (Inl e # _) = [Inl e]"
| "yield_from_pages (Inr page # pages) = map Inr page @ yield_from_pages pages"

definition get_all_functions :: "env \<Rightarrow> (error + lambda_function) list" where
  "get_all_functions lambda_client = yield_from_pages (paginate lambda_client)"

subsection \<open>\<^verbatim>\<open>get_lambda_source_code\<close>\<close>

definition mkdtemp_calls :: "state \<Rightarrow> nat" where
  "mkdtemp_calls st = length (filter (\<lambda>e. e = Mkdtemp) st)"

definition str_of_optional :: "string option \<Rightarrow> string" where
  "str_of_optional v = (case v of None \<Rightarrow> ''None'' | Some s \<Rightarrow> s)"

definition unrecognised_content_type :: "string \<Rightarrow> string option \<Rightarrow> error" where
  "unrecognised_content_type function_name content_type =
     RuntimeError (''Unrecognised Content-Type in deployment package for ''
       @ function_name @ '': '' @ str_of_optional content_type)"

definition get_lambda_source_code :: "env \<Rightarrow> string \<Rightarrow> state \<Rightarrow> (error + string) \<times> state" where
  "get_lambda_source_code lambda_client function_name st =
     (let st1 = st @ [GetFunction function_name] in
      case get_function lambda_client function_name of
        Inl e \<Rightarrow> (Inl e, st1)
      | Inr resp \<Rightarrow>
     (case getitem resp ''Code'' of
        Inl e \<Rightarrow> (Inl e, st1)
      | Inr code \<Rightarrow>
     (case getitem code ''Location'' of
        Inl e \<Rightarrow> (Inl e, st1)
      | Inr location \<Rightarrow>
     (let st2 = st1 @ [UrlRetrieve location] in
      case urlretrieve lambda_client location of
        Inl e \<Rightarrow> (Inl e, st2)
      | Inr (filename, headers) \<Rightarrow>
          if headers ''Content-Type'' = Some ''application/zip'' then
            (let archive_format = ''zip'';
                 st3 = st2 @ [Mkdtemp] in
             case mkdtemp lambda_client (mkdtemp_calls st2) of
               Inl e \<Rightarrow> (Inl e, st3)
             | Inr working_dir \<Rightarrow>
                 (let st4 = st3 @ [UnpackArchive filename working_dir archive_format] in
                  case unpack_archive lambda_client filename working_dir archive_format of
                    Inl e \<Rightarrow> (Inl e, st4)
                  | Inr _ \<Rightarrow> (Inr working_dir, st4)))
          else
            (Inl (unrecognised_content_type function_name (headers ''Content-Type'')), st2)))))"

subsection \<open>\<^verbatim>\<open>find_python_paths\<close>\<close>

definition find_python_paths :: "env \<Rightarrow> string \<Rightarrow> string list" where
  "find_python_paths env root =
     concat (map (\<lambda>(dirpath, _, filenames).
                    map (join dirpath) (filter (\<lambda>f. suffix ''.py'' f) filenames))
                 (os_walk env root))"

subsection \<open>\<^verbatim>\<open>contains_vendored_imports\<close>\<close>

definition looks_vendored :: "string \<Rightarrow> bool" where
  "looks_vendored line \<longleftrightarrow>
     sublist ''import botocore.vendored'' line
     \<or> sublist ''from botocore.vendored import '' line"

text \<open>
  The loop over the lines of the open file. It returns what the function returns,
  and the lines the file object has not yet handed out at that moment.
\<close>

fun scan_lines :: "string list \<Rightarrow> bool \<times> string list" where
  "scan_lines [] = (False, [])"
| "scan_lines (line # rest) =
     (if looks_vendored line then (True, rest) else scan_lines rest)"

definition contains_vendored_imports :: "env \<Rightarrow> string \<Rightarrow> state \<Rightarrow> (error + bool) \<times> state" where
  "contains_vendored_imports env python_path st =
     (case open_rb env python_path of
        Inl e \<Rightarrow> (Inl e, st @ [Open python_path])
      | Inr python_src \<Rightarrow> (Inr (fst (scan_lines (readlines python_src))), st @ [Open python_path]))"

subsection \<open>Terminal colours\<close>

definition OKGREEN :: string where "OKGREEN = CHR 0x1B # ''[92m''"
definition FAIL :: string where "FAIL = CHR 0x1B # ''[91m''"
definition ENDC :: string where "ENDC = CHR 0x1B # ''[0m''"
definition UNDERLINE :: string where "UNDERLINE = CHR 0x1B # ''[4m''"

definition pretty_function_name :: "string \<Rightarrow> string" where
  "pretty_function_name function_name = UNDERLINE @ function_name @ ENDC"

subsection \<open>The main program\<close>

text \<open>The loop over the Python files of one unpacked deployment package.\<close>

fun scan_paths :: "env \<Rightarrow> string \<Rightarrow> string list \<Rightarrow> string list \<Rightarrow> state
    \<Rightarrow> (error + string list) \<times> state" where
  "scan_paths env source_code_dir [] paths_with_vendored_imports st =
     (Inr paths_with_vendored_imports, st)"
| "scan_paths env source_code_dir (python_path # rest) paths_with_vendored_imports st =
     (case relpath env python_path source_code_dir of
        Inl e \<Rightarrow> (Inl e, st)
      | Inr rel \<Rightarrow>
          if prefix ''boto3/'' rel \<or> prefix ''botocore/'' rel
          then scan_paths env source_code_dir rest paths_with_vendored_imports st
          else
            (case contains_vendored_imports env python_path st of
               (Inl e, st') \<Rightarrow> (Inl e, st')
             | (Inr True, st') \<Rightarrow>
                 (case relpath env python_path source_code_dir of
                    Inl e \<Rightarrow> (Inl e, st')
                  | Inr rel' \<Rightarrow>
                      scan_paths env source_code_dir rest
                        (paths_with_vendored_imports @ [rel']) st')
             | (Inr False, st') \<Rightarrow>
                 scan_paths env source_code_dir rest paths_with_vendored_imports st'))"

definition fail_banner :: "string \<Rightarrow> string" where
  "fail_banner function_name =
     ''['' @ FAIL @ ''FAIL'' @ ENDC @ ''] Vendored imports detected in ''
       @ pretty_function_name function_name @ '':''"

definition ok_banner :: "string \<Rightarrow> string" where
  "ok_banner function_name =
     ''[ '' @ OKGREEN @ ''OK'' @ ENDC @ '' ] No vendored imports in ''
       @ pretty_function_name function_name"

definition print :: "env \<Rightarrow> string \<Rightarrow> state \<Rightarrow> (error + unit) \<times> state" where
  "print env line st =
     (case stdout_write env line of
        Inl e \<Rightarrow> (Inl e, st)
      | Inr _ \<Rightarrow> (Inr (), st @ [Print line]))"

text \<open>The loop that prints one line for each path of the sorted findings.\<close>

fun print_paths :: "env \<Rightarrow> string list \<Rightarrow> state \<Rightarrow> (error + unit) \<times> state" where
  "print_paths env [] st = (Inr (), st)"
| "print_paths env (path # rest) st =
     (case print env (''       - '' @ path) st of
        (Inl e, st') \<Rightarrow> (Inl e, st')
      | (Inr _, st') \<Rightarrow> print_paths env rest st')"

definition report :: "env \<Rightarrow> string \<Rightarrow> string list \<Rightarrow> state \<Rightarrow> (error + unit) \<times> state" where
  "report env function_name paths_with_vendored_imports st =
     (if paths_with_vendored_imports \<noteq> []
      then
        (case print env (fail_banner function_name) st of
           (Inl e, st') \<Rightarrow> (Inl e, st')
         | (Inr _, st') \<Rightarrow> print_paths env (sort paths_with_vendored_imports) st')
      else print env (ok_banner function_name) st)"

definition loop_body :: "env \<Rightarrow> lambda_function \<Rightarrow> state \<Rightarrow> (error + unit) \<times> state" where
  "loop_body lambda_client lambda_function st =
     (case getitem lambda_function ''Runtime'' of
        Inl e \<Rightarrow> (Inl e, st)
      | Inr runtime \<Rightarrow>
          if \<not> sublist ''python'' runtime then (Inr (), st)
          else
            (case getitem lambda_function ''FunctionName'' of
               Inl e \<Rightarrow> (Inl e, st)
             | Inr function_name \<Rightarrow>
            (case get_lambda_source_code lambda_client function_name st of
               (Inl e, st1) \<Rightarrow> (Inl e, st1)
             | (Inr source_code_dir, st1) \<Rightarrow>
            (case scan_paths lambda_client source_code_dir
                    (find_python_paths lambda_client source_code_dir) [] st1 of
               (Inl e, st2) \<Rightarrow> (Inl e, st2)
             | (Inr paths_with_vendored_imports, st2) \<Rightarrow>
                 report lambda_client function_name paths_with_vendored_imports st2))))"

fun main_loop :: "env \<Rightarrow> (error + lambda_function) list \<Rightarrow> state \<Rightarrow> (error + unit) \<times> state" where
  "main_loop lambda_client [] st = (Inr (), st)"
| "main_loop lambda_client (Inl e # _) st = (Inl e, st)"
| "main_loop lambda_client (Inr lambda_function # rest) st =
     (case loop_body lambda_client lambda_function st of
        (Inl e, st') \<Rightarrow> (Inl e, st')
      | (Inr _, st') \<Rightarrow> main_loop lambda_client rest st')"

definition main :: "env \<Rightarrow> (error + unit) \<times> state" where
  "main lambda_client = main_loop lambda_client (get_all_functions lambda_client) []"

definition stdout :: "state \<Rightarrow> string list" where
  "stdout st = concat (map (\<lambda>e. case e of Print s \<Rightarrow> [s] | _ \<Rightarrow> []) st)"

section \<open>The loop over the files, without the trace\<close>

text \<open>
  What one iteration of the loop over the Python files comes to when the trace is left
  out: an error, or the relative path that is appended to the findings (\<open>None\<close> when
  the file is skipped or has no vendored import). The proofs about \<open>scan_paths\<close> go
  through it.
\<close>

definition finding :: "env \<Rightarrow> string \<Rightarrow> string \<Rightarrow> error + string option" where
  "finding env source_code_dir python_path =
     (case relpath env python_path source_code_dir of
        Inl e \<Rightarrow> Inl e
      | Inr rel \<Rightarrow>
          if prefix ''boto3/'' rel \<or> prefix ''botocore/'' rel then Inr None
          else (case open_rb env python_path of
                  Inl e \<Rightarrow> Inl e
                | Inr python_src \<Rightarrow>
                    if fst (scan_lines (readlines python_src)) then Inr (Some rel) else Inr None))"

definition found_in :: "env \<Rightarrow> string \<Rightarrow> string \<Rightarrow> string list" where
  "found_in env source_code_dir python_path =
     (case finding env source_code_dir python_path of Inr (Some rel) \<Rightarrow> [rel] | _ \<Rightarrow> [])"

section \<open>An example account\<close>

text \<open>
  An account with a Node.js function and two Python functions, listed on two pages.
  The deployment package of the first Python function holds a clean file, a handler
  with a from-import on its third line, a worker that imports the vendored module
  inside a function, and a copy of boto3; the package of the second holds one clean
  file.
\<close>

definition example_app :: string where
  "example_app = ''import os'' @ [newline] @ ''print(os.getcwd())'' @ [newline]"

definition example_handler :: string where
  "example_handler =
     ''import json'' @ [newline] @ [newline]
     @ ''from botocore.vendored import requests'' @ [newline]
     @ ''def handler(event, context):'' @ [newline]
     @ ''    return requests.get(event).text'' @ [newline]"

definition example_worker :: string where
  "example_worker =
     ''def run(url):'' @ [newline]
     @ ''    import botocore.vendored.requests as requests'' @ [newline]
     @ ''    return requests.get(url)'' @ [newline]"

definition example_helper :: string where
  "example_helper = ''import botocore.vendored'' @ [newline]"

definition example_open_rb :: "string \<Rightarrow> error + string" where
  "example_open_rb path =
     (if path = ''/tmp/tmpd0/app.py'' then Inr example_app
      else if path = ''/tmp/tmpd0/handler.py'' then Inr example_handler
      else if path = ''/tmp/tmpd0/worker.py'' then Inr example_worker
      else if path = ''/tmp/tmpd0/boto3/vendored_helper.py'' then Inr example_helper
      else if path = ''/tmp/tmpd1/main.py'' then Inr example_app
      else Inl (LibraryError ''FileNotFoundError''))"

definition example_os_walk :: "string \<Rightarrow> (string \<times> string list \<times> string list) list" where
  "example_os_walk root =
     (if root = ''/tmp/tmpd0''
      then [(''/tmp/tmpd0'', [''boto3''], [''worker.py'', ''README.md'', ''app.py'', ''handler.py'']),
            (''/tmp/tmpd0/boto3'', [], [''vendored_helper.py''])]
      else if root = ''/tmp/tmpd1'' then [(''/tmp/tmpd1'', [], [''main.py''])]
      else [])"

text \<open>The same tree, its files listed in another order.\<close>

definition example_os_walk' :: "string \<Rightarrow> (string \<times> string list \<times> string list) list" where
  "example_os_walk' root =
     (if root = ''/tmp/tmpd0''
      then [(''/tmp/tmpd0'', [''boto3''], [''handler.py'', ''app.py'', ''README.md'', ''worker.py'']),
            (''/tmp/tmpd0/boto3'', [], [''vendored_helper.py''])]
      else if root = ''/tmp/tmpd1'' then [(''/tmp/tmpd1'', [], [''main.py''])]
      else [])"

definition example_audit :: lambda_function where
  "example_audit = [''FunctionName'' \<mapsto> ''audit'', ''Runtime'' \<mapsto> ''python3.8'']"

definition example_web :: lambda_function where
  "example_web = [''FunctionName'' \<mapsto> ''web'', ''Runtime'' \<mapsto> ''nodejs12.x'']"

definition example_cleanup :: lambda_function where
  "example_cleanup = [''FunctionName'' \<mapsto> ''cleanup'', ''Runtime'' \<mapsto> ''python3.9'']"

definition example_headers :: "string \<Rightarrow> string \<rightharpoonup> string" where
  "example_headers content_type = [''Content-Type'' \<mapsto> content_type]"

definition example_env :: env where
  "example_env = \<lparr>
     paginate = [Inr [example_web, example_audit], Inr [example_cleanup]],
     get_function = (\<lambda>name. Inr [''Code'' \<mapsto> [''Location'' \<mapsto> ''https://host/'' @ name]]),
     urlretrieve = (\<lambda>url. Inr (''/tmp/tmpfile'', example_headers ''application/zip'')),
     mkdtemp = (\<lambda>n. if n = 0 then Inr ''/tmp/tmpd0'' else Inr ''/tmp/tmpd1''),
     unpack_archive = (\<lambda>filename extract_dir archive_format. Inr ()),
     os_walk = example_os_walk,
     open_rb = example_open_rb,
     getcwd = ''/home/user'',
     stdout_write = (\<lambda>line. Inr ()) \<rparr>"

text \<open>
  Variations: another file content under every path, other response headers, no
  function.
\<close>

definition env_with_file :: "string \<Rightarrow> env" where
  "env_with_file python_src = example_env\<lparr>open_rb := (\<lambda>path. Inr python_src)\<rparr>"

definition env_with_headers :: "(string \<rightharpoonup> string) \<Rightarrow> env" where
  "env_with_headers headers = example_env\<lparr>urlretrieve := (\<lambda>url. Inr (''/tmp/tmpfile'', headers))\<rparr>"

definition example_empty_env :: env where
  "example_empty_env = example_env\<lparr>paginate := [Inr []]\<rparr>"

definition example_latin1 :: string where
  "example_latin1 =
     ''# caf'' @ [CHR 0xE9] @ [newline] @ ''import botocore.vendored'' @ [newline]"

definition example_comment :: string where
  "example_comment =
     ''# was: import botocore.vendored'' @ [newline] @ ''import requests'' @ [newline]"

section \<open>Properties of the loops\<close>

lemma fst_scan_lines: "fst (scan_lines ls) \<longleftrightarrow> (\<exists>l\<in>set ls. looks_vendored l)"
  by (induction ls) auto


lemma fst_contains_vendored_imports:
  "open_rb env p = Inr src \<Longrightarrow>
   fst (contains_vendored_imports env p st) = Inr (\<exists>l\<in>set (readlines src). looks_vendored l)"
  by (simp add: contains_vendored_imports_def fst_scan_lines)

lemma contains_vendored_imports_cases:
  "contains_vendored_imports env p st =
     (case open_rb env p of Inl e \<Rightarrow> Inl e | Inr src \<Rightarrow> Inr (fst (scan_lines (readlines src))),
      st @ [Open p])"
  by (simp add: contains_vendored_imports_def split: sum.splits)

lemma scan_paths_Inr:
  "fst (scan_paths env root ps acc st) = Inr found \<longleftrightarrow>
     (\<forall>p\<in>set ps. \<exists>x. finding env root p = Inr x)
     \<and> found = acc @ concat (map (found_in env root) ps)"
proof (induction ps arbitrary: acc st)
  case Nil
  then show ?case by auto
next
  case (Cons p ps)
  show ?case
  proof (cases "relpath env p root")
    case (Inl e)
    then show ?thesis by (simp add: finding_def)
  next
    case (Inr rel)
    show ?thesis
    proof (cases "prefix ''boto3/'' rel \<or> prefix ''botocore/'' rel")
      case True
      with Inr Cons.IH [of acc st] show ?thesis
        by (simp add: finding_def found_in_def)
    next
      case False
      show ?thesis
      proof (cases "open_rb env p")
        case (Inl e)
        with Inr False show ?thesis
          by (simp add: finding_def contains_vendored_imports_cases)
      next
        case src: (Inr src)
        show ?thesis
        proof (cases "fst (scan_lines (readlines src))")
          case True
          with Inr False src Cons.IH [of "acc @ [rel]" "st @ [Open p]"] show ?thesis
            by (simp add: finding_def found_in_def contains_vendored_imports_cases)
        next
          case clean: False
          with Inr False src Cons.IH [of acc "st @ [Open p]"] show ?thesis
            by (simp add: finding_def found_in_def contains_vendored_imports_cases)
        qed
      qed
    qed
  qed
qed

lemma found_in_not_excluded:
  "rel \<in> set (found_in env root p) \<Longrightarrow> \<not> prefix ''boto3/'' rel \<and> \<not> prefix ''botocore/'' rel"
  by (auto simp: found_in_def finding_def split: sum.splits option.splits if_splits)

lemma mset_concat_map_cong:
  "mset ps' = mset ps \<Longrightarrow> mset (concat (map g ps')) = mset (concat (map g ps))"
proof -
  assume eq: "mset ps' = mset ps"
  have "mset (concat (map g qs)) = sum_mset (image_mset (\<lambda>p. mset (g p)) (mset qs))" for qs
    by (induction qs) simp_all
  with eq show ?thesis by simp
qed

lemma main_loop_append:
  "main_loop env (xs @ ys) st =
     (case main_loop env xs st of (Inl e, st') \<Rightarrow> (Inl e, st') | (Inr u, st') \<Rightarrow> main_loop env ys st')"
  by (induction env xs st rule: main_loop.induct) (auto split: prod.splits sum.splits)

lemma yield_from_empty_pages:
  "(\<forall>page\<in>set pages. page = Inr []) \<Longrightarrow> yield_from_pages pages = []"
  by (induction pages rule: yield_from_pages.induct) auto

lemma loop_body_skip:
  "lambda_function ''Runtime'' = Some runtime \<Longrightarrow> \<not> sublist ''python'' runtime \<Longrightarrow>
   loop_body env lambda_function st = (Inr (), st)"
  by (simp add: loop_body_def getitem_def)

lemma get_lambda_source_code_wrong_type:
  assumes "get_function env function_name = Inr resp"
    and "resp ''Code'' = Some code"
    and "code ''Location'' = Some location"
    and "urlretrieve env location = Inr (filename, headers)"
    and "headers ''Content-Type'' \<noteq> Some ''application/zip''"
  shows "get_lambda_source_code env function_name st =
     (Inl (unrecognised_content_type function_name (headers ''Content-Type'')),
      st @ [GetFunction function_name, UrlRetrieve location])"
  using assms by (simp add: get_lambda_source_code_def getitem_def Let_def)

lemma stdout_append: "stdout (st @ st') = stdout st @ stdout st'"
  by (simp add: stdout_def)

lemma stdout_Open: "stdout (map Open ps) = []"
  by (induction ps) (simp_all add: stdout_def)

lemma scan_paths_trace:
  "\<exists>opened. snd (scan_paths env root ps acc st) = st @ map Open opened
     \<and> (\<forall>p\<in>set opened. \<forall>rel. relpath env p root = Inr rel \<longrightarrow>
            \<not> prefix ''boto3/'' rel \<and> \<not> prefix ''botocore/'' rel)"
proof (induction ps arbitrary: acc st)
  case Nil
  have "snd (scan_paths env root [] acc st) = st @ map Open []" by simp
  then show ?case by fastforce
next
  case (Cons p ps)
  show ?case
  proof (cases "relpath env p root")
    case (Inl e)
    then have "snd (scan_paths env root (p # ps) acc st) = st @ map Open []" by simp
    then show ?thesis by fastforce
  next
    case (Inr rel)
    show ?thesis
    proof (cases "prefix ''boto3/'' rel \<or> prefix ''botocore/'' rel")
      case True
      with Inr Cons.IH [of acc st] show ?thesis by simp
    next
      case False
      show ?thesis
      proof (cases "open_rb env p")
        case (Inl e)
        with Inr False have "snd (scan_paths env root (p # ps) acc st) = st @ map Open [p]"
          by (simp add: contains_vendored_imports_cases)
        with Inr False show ?thesis by fastforce
      next
        case src: (Inr src)
        define acc' where "acc' = (if fst (scan_lines (readlines src)) then acc @ [rel] else acc)"
        from Inr False src have step: "scan_paths env root (p # ps) acc st
            = scan_paths env root ps acc' (st @ [Open p])"
          by (simp add: contains_vendored_imports_cases acc'_def)
        from Cons.IH [of acc' "st @ [Open p]"] obtain opened where
          o: "snd (scan_paths env root ps acc' (st @ [Open p])) = (st @ [Open p]) @ map Open opened"
            "\<forall>p\<in>set opened. \<forall>rel. relpath env p root = Inr rel \<longrightarrow>
               \<not> prefix ''boto3/'' rel \<and> \<not> prefix ''botocore/'' rel"
          by blast
        from o(1) step have "snd (scan_paths env root (p # ps) acc st) = st @ map Open (p # opened)"
          by simp
        moreover from o(2) Inr False have "\<forall>p\<in>set (p # opened). \<forall>rel. relpath env p root = Inr rel \<longrightarrow>
               \<not> prefix ''boto3/'' rel \<and> \<not> prefix ''botocore/'' rel"
          by simp
        ultimately show ?thesis by blast
      qed
    qed
  qed
qed

lemma stdout_scan_paths: "stdout (snd (scan_paths env root ps acc st)) = stdout st"
proof -
  from scan_paths_trace [of env root ps acc st]
  obtain opened where "snd (scan_paths env root ps acc st) = st @ map Open opened"
    by blast
  then show ?thesis
    by (simp add: stdout_append stdout_Open)
qed

lemma scan_paths_permuted:
  assumes "fst (scan_paths env root ps acc st) = Inr found"
    and "mset ps' = mset ps"
  shows "\<exists>found'. fst (scan_paths env root ps' acc st) = Inr (acc @ found')
           \<and> found = acc @ concat (map (found_in env root) ps)
           \<and> mset found' = mset (concat (map (found_in env root) ps))"
proof -
  from assms(1) have ok: "\<forall>p\<in>set ps. \<exists>x. finding env root p = Inr x"
    and found: "found = acc @ concat (map (found_in env root) ps)"
    by (simp_all add: scan_paths_Inr)
  from assms(2) have "set ps' = set ps"
    by (rule mset_eq_setD)
  with ok have "\<forall>p\<in>set ps'. \<exists>x. finding env root p = Inr x"
    by simp
  then have "fst (scan_paths env root ps' acc st)
      = Inr (acc @ concat (map (found_in env root) ps'))"
    by (simp add: scan_paths_Inr)
  moreover from assms(2) have "mset (concat (map (found_in env root) ps'))
      = mset (concat (map (found_in env root) ps))"
    by (rule mset_concat_map_cong)
  ultimately show ?thesis using found by blast
qed

lemma looks_vendored_statement:
  "looks_vendored (''from botocore.vendored import requests'' @ eol)"
  "looks_vendored (''import botocore.vendored'' @ eol)"
proof -
  have "sublist ''from botocore.vendored import '' ([] @ ''from botocore.vendored import '' @ (''requests'' @ eol))"
    by (rule sublist_appendI)
  then show "looks_vendored (''from botocore.vendored import requests'' @ eol)"
    by (simp add: looks_vendored_def)
  have "sublist ''import botocore.vendored'' ([] @ ''import botocore.vendored'' @ eol)"
    by (rule sublist_appendI)
  then show "looks_vendored (''import botocore.vendored'' @ eol)"
    by (simp add: looks_vendored_def)
qed

lemma print_frame:
  "print env line st = (fst (print env line []), st @ snd (print env line []))"
  by (simp add: print_def split: sum.splits)

lemma print_paths_frame:
  "print_paths env paths st = (fst (print_paths env paths []), st @ snd (print_paths env paths []))"
proof (induction paths arbitrary: st)
  case Nil
  show ?case by simp
next
  case (Cons path paths)
  show ?case
  proof (cases "stdout_write env (''       - '' @ path)")
    case (Inl e)
    then show ?thesis by (simp add: print_def)
  next
    case (Inr u)
    with Cons.IH [of "st @ [Print (''       - '' @ path)]"]
         Cons.IH [of "[Print (''       - '' @ path)]"]
    show ?thesis by (simp add: print_def)
  qed
qed

lemma snd_print_paths:
  "snd (print_paths env paths st)
     = st @ map Print (takeWhile (\<lambda>line. stdout_write env line = Inr ())
                         (map (\<lambda>path. ''       - '' @ path) paths))"
proof (induction paths arbitrary: st)
  case Nil
  show ?case by simp
next
  case (Cons path paths)
  show ?case
  proof (cases "stdout_write env (''       - '' @ path)")
    case (Inl e)
    then show ?thesis by (simp add: print_def)
  next
    case (Inr u)
    with Cons.IH [of "st @ [Print (''       - '' @ path)]"]
    show ?thesis by (simp add: print_def)
  qed
qed

lemma fst_print_paths:
  "fst (print_paths env paths st) = Inr ()
     \<longleftrightarrow> (\<forall>path\<in>set paths. stdout_write env (''       - '' @ path) = Inr ())"
proof (induction paths arbitrary: st)
  case Nil
  show ?case by simp
next
  case (Cons path paths)
  show ?case
  proof (cases "stdout_write env (''       - '' @ path)")
    case (Inl e)
    then show ?thesis by (simp add: print_def)
  next
    case (Inr u)
    with Cons.IH [of "st @ [Print (''       - '' @ path)]"]
    show ?thesis by (simp add: print_def)
  qed
qed

lemma snd_report_findings:
  assumes "paths \<noteq> []"
  shows "snd (report env function_name paths st)
     = st @ map Print (takeWhile (\<lambda>line. stdout_write env line = Inr ())
                         (fail_banner function_name
                            # map (\<lambda>path. ''       - '' @ path) (sort paths)))"
proof (cases "stdout_write env (fail_banner function_name)")
  case (Inl e)
  with assms show ?thesis by (simp add: report_def print_def)
next
  case (Inr u)
  with assms show ?thesis by (simp add: report_def print_def snd_print_paths)
qed

lemma fst_report_findings:
  assumes "paths \<noteq> []"
  shows "fst (report env function_name paths st) = Inr ()
     \<longleftrightarrow> (\<forall>line\<in>set (fail_banner function_name
                          # map (\<lambda>path. ''       - '' @ path) (sort paths)).
            stdout_write env line = Inr ())"
proof (cases "stdout_write env (fail_banner function_name)")
  case (Inl e)
  with assms show ?thesis by (simp add: report_def print_def)
next
  case (Inr u)
  with assms show ?thesis by (simp add: report_def print_def fst_print_paths)
qed

lemma report_frame:
  "report env function_name paths st
     = (fst (report env function_name paths []), st @ snd (report env function_name paths []))"
proof (cases "paths \<noteq> [] \<and> (\<exists>u. stdout_write env (fail_banner function_name) = Inr u)")
  case True
  then obtain u where "stdout_write env (fail_banner function_name) = Inr u" and "paths \<noteq> []"
    by blast
  with print_paths_frame [of env "sort paths" "st @ [Print (fail_banner function_name)]"]
       print_paths_frame [of env "sort paths" "[Print (fail_banner function_name)]"]
  show ?thesis by (simp add: report_def print_def)
next
  case False
  then show ?thesis
    using print_frame [of env "ok_banner function_name" st]
    by (cases "stdout_write env (fail_banner function_name)")
       (auto simp: report_def print_def split: sum.splits)
qed

lemma report_sort_cong:
  assumes "sort paths' = sort paths" and "paths \<noteq> []" and "paths' \<noteq> []"
  shows "report env function_name paths' st = report env function_name paths st"
  using assms by (simp add: report_def split: prod.splits sum.splits)

lemma stdout_get_lambda_source_code:
  "stdout (snd (get_lambda_source_code env function_name st)) = stdout st"
  by (simp add: get_lambda_source_code_def Let_def stdout_def split: sum.splits prod.splits)

text \<open>None of the steps of the loop body consults \<open>os_walk\<close> but \<open>find_python_paths\<close>.\<close>

lemma print_os_walk: "print (env\<lparr>os_walk := w\<rparr>) = print env"
  by (simp add: print_def fun_eq_iff)

lemma print_paths_os_walk: "print_paths (env\<lparr>os_walk := w\<rparr>) paths st = print_paths env paths st"
  by (induction paths arbitrary: st) (simp_all add: print_os_walk split: prod.splits sum.splits)

lemma report_os_walk: "report (env\<lparr>os_walk := w\<rparr>) = report env"
  by (simp add: report_def fun_eq_iff print_os_walk print_paths_os_walk
        split: prod.splits sum.splits)

lemma get_lambda_source_code_os_walk:
  "get_lambda_source_code (env\<lparr>os_walk := w\<rparr>) = get_lambda_source_code env"
  by (simp add: get_lambda_source_code_def fun_eq_iff Let_def split: sum.splits prod.splits)

lemma relpath_os_walk: "relpath (env\<lparr>os_walk := w\<rparr>) = relpath env"
  by (simp add: relpath_def abspath_def fun_eq_iff)

lemma contains_vendored_imports_os_walk:
  "contains_vendored_imports (env\<lparr>os_walk := w\<rparr>) = contains_vendored_imports env"
  by (simp add: contains_vendored_imports_def fun_eq_iff)

lemma scan_paths_os_walk:
  "scan_paths (env\<lparr>os_walk := w\<rparr>) root ps acc st = scan_paths env root ps acc st"
  by (induction ps arbitrary: acc st)
     (simp_all add: relpath_os_walk contains_vendored_imports_os_walk
        split: sum.splits prod.splits bool.splits)

lemma stdout_Print: "stdout (map Print ls) = ls"
  by (induction ls) (simp_all add: stdout_def)

section \<open>The claims\<close>

subsection \<open>C1: a file with an exact import line is flagged\<close>

text \<open>
  C1. A file that can be opened and that has a line which is exactly
  \<^verbatim>\<open>from botocore.vendored import requests\<close> or exactly \<^verbatim>\<open>import botocore.vendored\<close>
  (the line ending with a newline, with a carriage return and a newline, or with the
  end of the file) makes \<open>contains_vendored_imports\<close> return \<open>True\<close>.
\<close>

theorem exact_import_line_is_flagged:
  assumes "open_rb env python_path = Inr python_src"
    and "line \<in> set (readlines python_src)"
    and "statement = ''from botocore.vendored import requests''
         \<or> statement = ''import botocore.vendored''"
    and "line = statement \<or> line = statement @ [newline]
         \<or> line = statement @ [CHR 0x0D, newline]"
  shows "fst (contains_vendored_imports env python_path st) = Inr True"
proof -
  from assms(3,4) obtain eol where "line = ''from botocore.vendored import requests'' @ eol
      \<or> line = ''import botocore.vendored'' @ eol"
    by (metis append_Nil2)
  then have "looks_vendored line"
    using looks_vendored_statement by auto
  with assms(1,2) show ?thesis
    by (auto simp: fst_contains_vendored_imports)
qed

theorem exact_import_line_is_flagged_witness:
  "open_rb example_env ''/tmp/tmpd0/handler.py'' = Inr example_handler
   \<and> ''from botocore.vendored import requests'' @ [newline] \<in> set (readlines example_handler)
   \<and> fst (contains_vendored_imports example_env ''/tmp/tmpd0/handler.py'' []) = Inr True"
proof -
  have h1: "open_rb example_env ''/tmp/tmpd0/handler.py'' = Inr example_handler"
    by (simp add: example_env_def example_open_rb_def)
  have h2: "''from botocore.vendored import requests'' @ [newline] \<in> set (readlines example_handler)"
    by code_simp
  from exact_import_line_is_flagged [OF h1 h2, of "''from botocore.vendored import requests''" "[]"]
  show ?thesis using h1 h2 by simp
qed

subsection \<open>C2: a file without the two substrings is clean, and is read to its end\<close>




subsection \<open>C3: files of boto3 and botocore are never findings\<close>

text \<open>
  C3. When the loop over the Python files of a package ends with the findings
  \<open>found\<close>, a file whose path relative to the scratch directory starts with
  \<^verbatim>\<open>boto3/\<close> or \<^verbatim>\<open>botocore/\<close> is not among them, whatever the file contains: the
  loop does not even open it.
\<close>

theorem boto_files_never_in_findings:
  assumes "scan_paths env source_code_dir ps [] st = (Inr found, st')"
    and "relpath env python_path source_code_dir = Inr rel"
    and "prefix ''boto3/'' rel \<or> prefix ''botocore/'' rel"
  shows "rel \<notin> set found
     \<and> (\<exists>opened. st' = st @ map Open opened \<and> python_path \<notin> set opened)"
proof -
  from assms(1) have "fst (scan_paths env source_code_dir ps [] st) = Inr found"
    by simp
  then have "found = concat (map (found_in env source_code_dir) ps)"
    by (simp add: scan_paths_Inr)
  with assms(3) have "rel \<notin> set found"
    by (auto dest: found_in_not_excluded)
  moreover from scan_paths_trace [of env source_code_dir ps "[]" st] assms(1)
  obtain opened where "st' = st @ map Open opened"
    and "\<forall>p\<in>set opened. \<forall>rel. relpath env p source_code_dir = Inr rel \<longrightarrow>
            \<not> prefix ''boto3/'' rel \<and> \<not> prefix ''botocore/'' rel"
    by auto
  with assms(2,3) have "\<exists>opened. st' = st @ map Open opened \<and> python_path \<notin> set opened"
    by blast
  ultimately show ?thesis by simp
qed

theorem boto_files_never_in_findings_witness:
  "scan_paths example_env ''/tmp/tmpd0'' (find_python_paths example_env ''/tmp/tmpd0'') [] []
     = (Inr [''worker.py'', ''handler.py''],
        [Open ''/tmp/tmpd0/worker.py'', Open ''/tmp/tmpd0/app.py'', Open ''/tmp/tmpd0/handler.py''])
   \<and> ''/tmp/tmpd0/boto3/vendored_helper.py'' \<in> set (find_python_paths example_env ''/tmp/tmpd0'')
   \<and> fst (contains_vendored_imports example_env ''/tmp/tmpd0/boto3/vendored_helper.py'' []) = Inr True
   \<and> relpath example_env ''/tmp/tmpd0/boto3/vendored_helper.py'' ''/tmp/tmpd0''
       = Inr ''boto3/vendored_helper.py''
   \<and> prefix ''boto3/'' ''boto3/vendored_helper.py''
   \<and> ''boto3/vendored_helper.py'' \<notin> set [''worker.py'', ''handler.py'']"
proof -
  have h1: "scan_paths example_env ''/tmp/tmpd0'' (find_python_paths example_env ''/tmp/tmpd0'') [] []
     = (Inr [''worker.py'', ''handler.py''],
        [Open ''/tmp/tmpd0/worker.py'', Open ''/tmp/tmpd0/app.py'', Open ''/tmp/tmpd0/handler.py''])"
    by code_simp
  have h2: "relpath example_env ''/tmp/tmpd0/boto3/vendored_helper.py'' ''/tmp/tmpd0''
       = Inr ''boto3/vendored_helper.py''"
    by code_simp
  have h3: "prefix ''boto3/'' ''boto3/vendored_helper.py''"
    by code_simp
  have h4: "''/tmp/tmpd0/boto3/vendored_helper.py'' \<in> set (find_python_paths example_env ''/tmp/tmpd0'')"
    by code_simp
  have h5: "fst (contains_vendored_imports example_env ''/tmp/tmpd0/boto3/vendored_helper.py'' []) = Inr True"
    by code_simp
  from boto_files_never_in_findings [OF h1 h2 disjI1 [OF h3]] h1 h2 h3 h4 h5
  show ?thesis by simp
qed

subsection \<open>C4: findings are printed sorted, whatever the order of the walk\<close>

text \<open>
  C4. A Python function has been fetched, and the loop over its files has ended with
  findings that are not empty. Then what the program prints for this function is the
  failure banner and one line for each finding, the findings in lexicographic order,
  up to the first line that standard output refuses; when it refuses none, the body of
  the main loop ends normally with all these lines printed. When the walk yields the
  same files in another order, the program prints the same lines and ends in the same
  way.
\<close>

theorem findings_printed_in_order:
  assumes "lambda_function ''Runtime'' = Some runtime"
    and "sublist ''python'' runtime"
    and "lambda_function ''FunctionName'' = Some function_name"
    and "get_lambda_source_code env function_name st = (Inr source_code_dir, st1)"
    and "scan_paths env source_code_dir (find_python_paths env source_code_dir) [] st1
           = (Inr found, st2)"
    and "found \<noteq> []"
    and "mset (find_python_paths (env\<lparr>os_walk := walk'\<rparr>) source_code_dir)
           = mset (find_python_paths env source_code_dir)"
  shows "stdout (snd (loop_body env lambda_function st))
           = stdout st @ takeWhile (\<lambda>line. stdout_write env line = Inr ())
                           (fail_banner function_name
                              # map (\<lambda>path. ''       - '' @ path) (sort found))
     \<and> sorted (sort found)
     \<and> ((\<forall>line\<in>set (fail_banner function_name
                          # map (\<lambda>path. ''       - '' @ path) (sort found)).
            stdout_write env line = Inr ())
          \<longrightarrow> loop_body env lambda_function st
                = (Inr (), st2 @ map Print (fail_banner function_name
                                             # map (\<lambda>path. ''       - '' @ path) (sort found))))
     \<and> stdout (snd (loop_body (env\<lparr>os_walk := walk'\<rparr>) lambda_function st))
           = stdout (snd (loop_body env lambda_function st))
     \<and> fst (loop_body (env\<lparr>os_walk := walk'\<rparr>) lambda_function st)
           = fst (loop_body env lambda_function st)"
proof -
  let ?lines = "fail_banner function_name # map (\<lambda>path. ''       - '' @ path) (sort found)"
  let ?ok = "\<lambda>line. stdout_write env line = Inr ()"
  let ?env' = "env\<lparr>os_walk := walk'\<rparr>"
  from assms(1-5) have body: "loop_body env lambda_function st = report env function_name found st2"
    by (simp add: loop_body_def getitem_def)
  have out1: "stdout st1 = stdout st"
    using stdout_get_lambda_source_code [of env function_name st] assms(4) by simp
  have out2: "stdout st2 = stdout st1"
    using stdout_scan_paths [of env source_code_dir "find_python_paths env source_code_dir" "[]" st1]
      assms(5) by simp
  from assms(6) have trace: "snd (report env function_name found st2)
      = st2 @ map Print (takeWhile ?ok ?lines)"
    by (rule snd_report_findings)
  with body out1 out2 have printed: "stdout (snd (loop_body env lambda_function st))
      = stdout st @ takeWhile ?ok ?lines"
    by (simp add: stdout_append stdout_Print)
  have all_written: "loop_body env lambda_function st = (Inr (), st2 @ map Print ?lines)"
    if ok: "\<forall>line\<in>set ?lines. ?ok line"
  proof -
    from ok have "fst (report env function_name found st2) = Inr ()"
      unfolding fst_report_findings [OF assms(6)] .
    moreover from ok have "takeWhile ?ok ?lines = ?lines"
      by (simp only: takeWhile_eq_all_conv)
    ultimately show ?thesis
      using body trace by (simp add: prod_eq_iff)
  qed
  \<comment> \<open>the walk in another order\<close>
  from assms(5) have "fst (scan_paths env source_code_dir
      (find_python_paths env source_code_dir) [] st1) = Inr found"
    by simp
  from scan_paths_permuted [OF this assms(7)]
  obtain found' where run: "fst (scan_paths env source_code_dir
      (find_python_paths ?env' source_code_dir) [] st1) = Inr found'"
    and same: "mset found' = mset found"
    by auto
  define st2' where "st2' = snd (scan_paths env source_code_dir
      (find_python_paths ?env' source_code_dir) [] st1)"
  from run have "scan_paths ?env' source_code_dir
      (find_python_paths ?env' source_code_dir) [] st1 = (Inr found', st2')"
    by (simp add: st2'_def prod_eq_iff scan_paths_os_walk)
  with assms(1-4) have body': "loop_body ?env' lambda_function st
      = report env function_name found' st2'"
    by (simp add: loop_body_def getitem_def get_lambda_source_code_os_walk report_os_walk)
  have sorted_same: "sort found' = sort found"
    by (rule properties_for_sort) (simp_all add: same)
  from same assms(6) have nonempty: "found' \<noteq> []"
    by auto
  from sorted_same assms(6) nonempty
  have "report env function_name found' st2' = report env function_name found st2'"
    by (rule report_sort_cong)
  with body' have body'': "loop_body ?env' lambda_function st
      = report env function_name found st2'"
    by simp
  have out2': "stdout st2' = stdout st1"
    unfolding st2'_def by (rule stdout_scan_paths)
  have same_out: "stdout (snd (loop_body ?env' lambda_function st))
      = stdout (snd (loop_body env lambda_function st))"
    using body body'' out2 out2'
      report_frame [of env function_name found st2]
      report_frame [of env function_name found st2']
    by (simp add: stdout_append prod_eq_iff)
  have same_result: "fst (loop_body ?env' lambda_function st)
      = fst (loop_body env lambda_function st)"
    using body body''
      report_frame [of env function_name found st2]
      report_frame [of env function_name found st2']
    by (simp add: prod_eq_iff)
  from printed all_written same_out same_result show ?thesis
    by simp
qed

theorem findings_printed_in_order_witness:
  "get_lambda_source_code example_env ''audit'' []
     = (Inr ''/tmp/tmpd0'',
        [GetFunction ''audit'', UrlRetrieve ''https://host/audit'', Mkdtemp,
         UnpackArchive ''/tmp/tmpfile'' ''/tmp/tmpd0'' ''zip''])
   \<and> find_python_paths example_env ''/tmp/tmpd0''
       = [''/tmp/tmpd0/worker.py'', ''/tmp/tmpd0/app.py'', ''/tmp/tmpd0/handler.py'',
          ''/tmp/tmpd0/boto3/vendored_helper.py'']
   \<and> find_python_paths (example_env\<lparr>os_walk := example_os_walk'\<rparr>) ''/tmp/tmpd0''
       = [''/tmp/tmpd0/handler.py'', ''/tmp/tmpd0/app.py'', ''/tmp/tmpd0/worker.py'',
          ''/tmp/tmpd0/boto3/vendored_helper.py'']
   \<and> loop_body example_env example_audit []
       = (Inr (),
          [GetFunction ''audit'', UrlRetrieve ''https://host/audit'', Mkdtemp,
           UnpackArchive ''/tmp/tmpfile'' ''/tmp/tmpd0'' ''zip'',
           Open ''/tmp/tmpd0/worker.py'', Open ''/tmp/tmpd0/app.py'', Open ''/tmp/tmpd0/handler.py'',
           Print (fail_banner ''audit''), Print ''       - handler.py'', Print ''       - worker.py''])
   \<and> stdout (snd (loop_body example_env example_audit []))
       = [fail_banner ''audit'', ''       - handler.py'', ''       - worker.py'']
   \<and> stdout (snd (loop_body (example_env\<lparr>os_walk := example_os_walk'\<rparr>) example_audit []))
       = [fail_banner ''audit'', ''       - handler.py'', ''       - worker.py'']
   \<and> fst (loop_body (example_env\<lparr>os_walk := example_os_walk'\<rparr>) example_audit []) = Inr ()"
proof -
  let ?st1 = "[GetFunction ''audit'', UrlRetrieve ''https://host/audit'', Mkdtemp,
         UnpackArchive ''/tmp/tmpfile'' ''/tmp/tmpd0'' ''zip'']"
  let ?st2 = "[GetFunction ''audit'', UrlRetrieve ''https://host/audit'', Mkdtemp,
         UnpackArchive ''/tmp/tmpfile'' ''/tmp/tmpd0'' ''zip'',
         Open ''/tmp/tmpd0/worker.py'', Open ''/tmp/tmpd0/app.py'', Open ''/tmp/tmpd0/handler.py'']"
  have h1: "example_audit ''Runtime'' = Some ''python3.8''"
    by (simp add: example_audit_def)
  have h2: "sublist ''python'' ''python3.8''"
    by code_simp
  have h3: "example_audit ''FunctionName'' = Some ''audit''"
    by (simp add: example_audit_def)
  have h4: "get_lambda_source_code example_env ''audit'' [] = (Inr ''/tmp/tmpd0'', ?st1)"
    by code_simp
  have h5: "scan_paths example_env ''/tmp/tmpd0'' (find_python_paths example_env ''/tmp/tmpd0'') [] ?st1
      = (Inr [''worker.py'', ''handler.py''], ?st2)"
    by code_simp
  have h6: "[''worker.py'', ''handler.py''] \<noteq> []"
    by simp
  have w: "find_python_paths example_env ''/tmp/tmpd0''
       = [''/tmp/tmpd0/worker.py'', ''/tmp/tmpd0/app.py'', ''/tmp/tmpd0/handler.py'',
          ''/tmp/tmpd0/boto3/vendored_helper.py'']"
    by code_simp
  have w': "find_python_paths (example_env\<lparr>os_walk := example_os_walk'\<rparr>) ''/tmp/tmpd0''
       = [''/tmp/tmpd0/handler.py'', ''/tmp/tmpd0/app.py'', ''/tmp/tmpd0/worker.py'',
          ''/tmp/tmpd0/boto3/vendored_helper.py'']"
    by code_simp
  have h7: "mset (find_python_paths (example_env\<lparr>os_walk := example_os_walk'\<rparr>) ''/tmp/tmpd0'')
      = mset (find_python_paths example_env ''/tmp/tmpd0'')"
    unfolding w w' by simp
  have sorted_found: "sort [''worker.py'', ''handler.py''] = [''handler.py'', ''worker.py'']"
    by code_simp
  have writes: "stdout_write example_env line = Inr ()" for line
    by (simp add: example_env_def)
  note run = findings_printed_in_order [OF h1 h2 h3 h4 h5 h6 h7]
  from run have "stdout (snd (loop_body example_env example_audit []))
      = stdout [] @ takeWhile (\<lambda>line. stdout_write example_env line = Inr ())
          (fail_banner ''audit'' # map (\<lambda>path. ''       - '' @ path) (sort [''worker.py'', ''handler.py'']))"
    by (rule conjunct1)
  then have c1: "stdout (snd (loop_body example_env example_audit []))
       = [fail_banner ''audit'', ''       - handler.py'', ''       - worker.py'']"
    by (simp add: writes sorted_found stdout_def)
  from run have "(\<forall>line\<in>set (fail_banner ''audit''
                 # map (\<lambda>path. ''       - '' @ path) (sort [''worker.py'', ''handler.py''])).
            stdout_write example_env line = Inr ())
      \<longrightarrow> loop_body example_env example_audit []
            = (Inr (), ?st2 @ map Print (fail_banner ''audit''
                 # map (\<lambda>path. ''       - '' @ path) (sort [''worker.py'', ''handler.py''])))"
    by (elim conjE)
  then have c2: "loop_body example_env example_audit []
       = (Inr (),
          [GetFunction ''audit'', UrlRetrieve ''https://host/audit'', Mkdtemp,
           UnpackArchive ''/tmp/tmpfile'' ''/tmp/tmpd0'' ''zip'',
           Open ''/tmp/tmpd0/worker.py'', Open ''/tmp/tmpd0/app.py'', Open ''/tmp/tmpd0/handler.py'',
           Print (fail_banner ''audit''), Print ''       - handler.py'', Print ''       - worker.py''])"
    by (simp add: writes sorted_found)
  from run have "stdout (snd (loop_body (example_env\<lparr>os_walk := example_os_walk'\<rparr>) example_audit []))
       = stdout (snd (loop_body example_env example_audit []))"
    by (elim conjE)
  with c1 have c3: "stdout (snd (loop_body (example_env\<lparr>os_walk := example_os_walk'\<rparr>) example_audit []))
       = [fail_banner ''audit'', ''       - handler.py'', ''       - worker.py'']"
    by simp
  from run have "fst (loop_body (example_env\<lparr>os_walk := example_os_walk'\<rparr>) example_audit [])
       = fst (loop_body example_env example_audit [])"
    by (elim conjE)
  with c2 have c4: "fst (loop_body (example_env\<lparr>os_walk := example_os_walk'\<rparr>) example_audit []) = Inr ()"
    by simp
  show ?thesis
    by (intro conjI h4 w w' c2 c1 c3 c4)
qed

subsection \<open>C5: a function of another runtime is neither fetched nor scanned\<close>

text \<open>
  C5. For a function whose \<^verbatim>\<open>Runtime\<close> does not contain \<^verbatim>\<open>python\<close>, the body of the
  main loop does nothing: the trace is unchanged, so there is no call of
  \<open>get_lambda_source_code\<close> and no file is opened. The whole run is the run over
  the listing without this function.
\<close>

theorem non_python_function_is_skipped:
  assumes "lambda_function ''Runtime'' = Some runtime"
    and "\<not> sublist ''python'' runtime"
  shows "loop_body env lambda_function st = (Inr (), st)
     \<and> main_loop env (before @ Inr lambda_function # rest) st0
         = main_loop env (before @ rest) st0"
proof -
  from assms have skip: "loop_body env lambda_function s = (Inr (), s)" for s
    by (rule loop_body_skip)
  have "main_loop env (before @ Inr lambda_function # rest) st0
         = main_loop env (before @ rest) st0"
    by (simp add: main_loop_append [of env before] skip split: prod.splits sum.splits)
  with skip show ?thesis by simp
qed

theorem non_python_function_is_skipped_witness:
  "example_web ''Runtime'' = Some ''nodejs12.x''
   \<and> \<not> sublist ''python'' ''nodejs12.x''
   \<and> loop_body example_env example_web [] = (Inr (), [])
   \<and> main_loop example_env ([] @ Inr example_web # [Inr example_audit, Inr example_cleanup]) []
       = main_loop example_env ([] @ [Inr example_audit, Inr example_cleanup]) []"
proof -
  have h1: "example_web ''Runtime'' = Some ''nodejs12.x''"
    by (simp add: example_web_def)
  have h2: "\<not> sublist ''python'' ''nodejs12.x''"
    by code_simp
  from non_python_function_is_skipped
         [where lambda_function = example_web and env = example_env and st = "[]"
            and before = "[]" and rest = "[Inr example_audit, Inr example_cleanup]"
            and ?st0.0 = "[]", OF h1 h2] h1 h2
  show ?thesis by simp
qed

subsection \<open>C6: another content type aborts the run\<close>

text \<open>
  C6. The run reaches, with trace \<open>st\<close>, a Python function whose deployment package
  is downloaded with a \<^verbatim>\<open>Content-Type\<close> other than \<^verbatim>\<open>application/zip\<close>. Then
  \<open>get_lambda_source_code\<close> raises the error for an unrecognised content type
  (a \<^verbatim>\<open>RuntimeError\<close> in the script), and the whole program ends with this error:
  nothing catches it, the functions after this one are not processed, and after the
  download no directory is created, no file is opened and nothing is printed.
\<close>

theorem wrong_content_type_aborts_run:
  assumes "get_all_functions env = before @ Inr lambda_function # rest"
    and "main_loop env before [] = (Inr (), st)"
    and "lambda_function ''Runtime'' = Some runtime"
    and "sublist ''python'' runtime"
    and "lambda_function ''FunctionName'' = Some function_name"
    and "get_function env function_name = Inr resp"
    and "resp ''Code'' = Some code"
    and "code ''Location'' = Some location"
    and "urlretrieve env location = Inr (filename, headers)"
    and "headers ''Content-Type'' = Some content_type"
    and "content_type \<noteq> ''application/zip''"
  shows "get_lambda_source_code env function_name st =
           (Inl (RuntimeError (''Unrecognised Content-Type in deployment package for ''
                   @ function_name @ '': '' @ content_type)),
            st @ [GetFunction function_name, UrlRetrieve location])
     \<and> main env =
           (Inl (RuntimeError (''Unrecognised Content-Type in deployment package for ''
                   @ function_name @ '': '' @ content_type)),
            st @ [GetFunction function_name, UrlRetrieve location])"
proof -
  from assms(10,11) have "headers ''Content-Type'' \<noteq> Some ''application/zip''"
    by simp
  from get_lambda_source_code_wrong_type [OF assms(6-9) this, of st] assms(10)
  have fetch: "get_lambda_source_code env function_name st =
           (Inl (RuntimeError (''Unrecognised Content-Type in deployment package for ''
                   @ function_name @ '': '' @ content_type)),
            st @ [GetFunction function_name, UrlRetrieve location])"
    by (simp add: unrecognised_content_type_def str_of_optional_def)
  with assms(3-5) have "loop_body env lambda_function st =
           (Inl (RuntimeError (''Unrecognised Content-Type in deployment package for ''
                   @ function_name @ '': '' @ content_type)),
            st @ [GetFunction function_name, UrlRetrieve location])"
    by (simp add: loop_body_def getitem_def)
  with assms(1,2) have "main env =
           (Inl (RuntimeError (''Unrecognised Content-Type in deployment package for ''
                   @ function_name @ '': '' @ content_type)),
            st @ [GetFunction function_name, UrlRetrieve location])"
    by (simp add: main_def main_loop_append [of env before])
  with fetch show ?thesis by simp
qed

theorem wrong_content_type_aborts_run_witness:
  "get_all_functions (env_with_headers (example_headers ''application/x-tar''))
     = [Inr example_web] @ Inr example_audit # [Inr example_cleanup]
   \<and> main_loop (env_with_headers (example_headers ''application/x-tar'')) [Inr example_web] []
       = (Inr (), [])
   \<and> ''application/x-tar'' \<noteq> ''application/zip''
   \<and> get_lambda_source_code (env_with_headers (example_headers ''application/x-tar'')) ''audit'' []
       = (Inl (RuntimeError
                 ''Unrecognised Content-Type in deployment package for audit: application/x-tar''),
          [GetFunction ''audit'', UrlRetrieve ''https://host/audit''])
   \<and> main (env_with_headers (example_headers ''application/x-tar''))
       = (Inl (RuntimeError
                 ''Unrecognised Content-Type in deployment package for audit: application/x-tar''),
          [GetFunction ''audit'', UrlRetrieve ''https://host/audit''])"
proof -
  let ?env = "env_with_headers (example_headers ''application/x-tar'')"
  have h1: "get_all_functions ?env = [Inr example_web] @ Inr example_audit # [Inr example_cleanup]"
    by (simp add: get_all_functions_def env_with_headers_def example_env_def)
  have h2: "main_loop ?env [Inr example_web] [] = (Inr (), [])"
    by code_simp
  have h3: "example_audit ''Runtime'' = Some ''python3.8''"
    by (simp add: example_audit_def)
  have h4: "sublist ''python'' ''python3.8''"
    by code_simp
  have h5: "example_audit ''FunctionName'' = Some ''audit''"
    by (simp add: example_audit_def)
  have h6: "get_function ?env ''audit'' = Inr [''Code'' \<mapsto> [''Location'' \<mapsto> ''https://host/audit'']]"
    by (simp add: env_with_headers_def example_env_def)
  have h7: "[''Code'' \<mapsto> [''Location'' \<mapsto> ''https://host/audit'']] ''Code''
      = Some [''Location'' \<mapsto> ''https://host/audit'']"
    by simp
  have h8: "[''Location'' \<mapsto> ''https://host/audit''] ''Location'' = Some ''https://host/audit''"
    by simp
  have h9: "urlretrieve ?env ''https://host/audit''
      = Inr (''/tmp/tmpfile'', example_headers ''application/x-tar'')"
    by (simp add: env_with_headers_def example_env_def)
  have h10: "example_headers ''application/x-tar'' ''Content-Type'' = Some ''application/x-tar''"
    by (simp add: example_headers_def)
  have h11: "''application/x-tar'' \<noteq> ''application/zip''"
    by simp
  from wrong_content_type_aborts_run [OF h1 h2 h3 h4 h5 h6 h7 h8 h9 h10 h11] h1 h2 h11
  show ?thesis by simp
qed

subsection \<open>C7: every sequence of bytes is classified\<close>

text \<open>
  C7. The file is read as bytes and the two patterns are searched as byte strings, so
  for every content of a file that can be opened, valid UTF-8 or not,
  \<open>contains_vendored_imports\<close> returns a truth value and raises no error: the value
  says whether some line contains one of the two patterns.
\<close>

theorem any_bytes_are_classified:
  assumes "open_rb env python_path = Inr python_src"
  shows "fst (contains_vendored_imports env python_path st)
     = Inr (\<exists>line\<in>set (readlines python_src). looks_vendored line)"
  using assms by (rule fst_contains_vendored_imports)

theorem any_bytes_are_classified_witness:
  "open_rb (env_with_file example_latin1) ''/tmp/tmpd0/handler.py'' = Inr example_latin1
   \<and> CHR 0xE9 \<in> set example_latin1
   \<and> fst (contains_vendored_imports (env_with_file example_latin1) ''/tmp/tmpd0/handler.py'' [])
       = Inr True"
proof -
  have h1: "open_rb (env_with_file example_latin1) ''/tmp/tmpd0/handler.py'' = Inr example_latin1"
    by (simp add: env_with_file_def)
  have h2: "CHR 0xE9 \<in> set example_latin1"
    by (simp add: example_latin1_def)
  have h3: "\<exists>line\<in>set (readlines example_latin1). looks_vendored line"
    by code_simp
  from any_bytes_are_classified [OF h1, of "[]"] h1 h2 h3
  show ?thesis by simp
qed

subsection \<open>C8: an account without functions\<close>

text \<open>
  C8. When every page of the listing is empty, the program ends without an error and
  with an empty trace: it has printed nothing, and fetched nothing.
\<close>

theorem empty_listing_prints_nothing:
  assumes "\<forall>page\<in>set (paginate env). page = Inr []"
  shows "main env = (Inr (), []) \<and> stdout (snd (main env)) = []"
proof -
  from assms have "get_all_functions env = []"
    by (simp add: get_all_functions_def yield_from_empty_pages)
  then have "main env = (Inr (), [])"
    by (simp add: main_def)
  then show ?thesis
    by (simp add: stdout_def)
qed

theorem empty_listing_prints_nothing_witness:
  "paginate example_empty_env = [Inr []]
   \<and> main example_empty_env = (Inr (), [])
   \<and> stdout (snd (main example_empty_env)) = []"
proof -
  have h1: "paginate example_empty_env = [Inr []]"
    by (simp add: example_empty_env_def)
  then have h2: "\<forall>page\<in>set (paginate example_empty_env). page = Inr []"
    by simp
  from empty_listing_prints_nothing [OF h2] h1
  show ?thesis by (simp add: stdout_def)
qed

subsection \<open>C9: the pattern inside a comment is flagged\<close>

text \<open>
  C9. The file below has two lines: a comment that mentions
  \<^verbatim>\<open>import botocore.vendored\<close>, and an import of another module.
  \<open>contains_vendored_imports\<close> returns \<open>True\<close> for it: a line matches when it
  contains the pattern, whether or not the line is an import statement.
\<close>

theorem import_in_comment_is_flagged:
  "readlines example_comment
     = [''# was: import botocore.vendored'' @ [newline], ''import requests'' @ [newline]]
   \<and> fst (contains_vendored_imports (env_with_file example_comment) ''/tmp/tmpd0/handler.py'' [])
       = Inr True"
  by code_simp

subsection \<open>C10: no content type at all\<close>

text \<open>
  C10. When the response of the download has no \<^verbatim>\<open>Content-Type\<close> header,
  \<open>get_lambda_source_code\<close> raises the same error as for another content type, with
  \<^verbatim>\<open>None\<close> in the place of the type, and \<^verbatim>\<open>tempfile.mkdtemp\<close> has not been called:
  the scratch directory is created only after the check.
\<close>

theorem missing_content_type_raises_before_mkdtemp:
  assumes "get_function env function_name = Inr resp"
    and "resp ''Code'' = Some code"
    and "code ''Location'' = Some location"
    and "urlretrieve env location = Inr (filename, headers)"
    and "headers ''Content-Type'' = None"
  shows "get_lambda_source_code env function_name st =
           (Inl (RuntimeError (''Unrecognised Content-Type in deployment package for ''
                   @ function_name @ '': None'')),
            st @ [GetFunction function_name, UrlRetrieve location])
     \<and> mkdtemp_calls (snd (get_lambda_source_code env function_name st)) = mkdtemp_calls st"
proof -
  from assms(5) have "headers ''Content-Type'' \<noteq> Some ''application/zip''"
    by simp
  from get_lambda_source_code_wrong_type [OF assms(1-4) this, of st] assms(5)
  show ?thesis
    by (simp add: unrecognised_content_type_def str_of_optional_def mkdtemp_calls_def)
qed

theorem missing_content_type_raises_before_mkdtemp_witness:
  "urlretrieve (env_with_headers Map.empty) ''https://host/audit'' = Inr (''/tmp/tmpfile'', Map.empty)
   \<and> get_lambda_source_code (env_with_headers Map.empty) ''audit'' []
       = (Inl (RuntimeError ''Unrecognised Content-Type in deployment package for audit: None''),
          [GetFunction ''audit'', UrlRetrieve ''https://host/audit''])
   \<and> mkdtemp_calls (snd (get_lambda_source_code (env_with_headers Map.empty) ''audit'' [])) = 0"
proof -
  let ?env = "env_with_headers Map.empty"
  have h1: "get_function ?env ''audit'' = Inr [''Code'' \<mapsto> [''Location'' \<mapsto> ''https://host/audit'']]"
    by (simp add: env_with_headers_def example_env_def)
  have h2: "[''Code'' \<mapsto> [''Location'' \<mapsto> ''https://host/audit'']] ''Code''
      = Some [''Location'' \<mapsto> ''https://host/audit'']"
    by simp
  have h3: "[''Location'' \<mapsto> ''https://host/audit''] ''Location'' = Some ''https://host/audit''"
    by simp
  have h4: "urlretrieve ?env ''https://host/audit'' = Inr (''/tmp/tmpfile'', Map.empty)"
    by (simp add: env_with_headers_def example_env_def)
  have h5: "(Map.empty :: string \<rightharpoonup> string) ''Content-Type'' = None"
    by simp
  from missing_content_type_raises_before_mkdtemp [OF h1 h2 h3 h4 h5, of "[]"] h4
  show ?thesis by (simp add: mkdtemp_calls_def)
qed

end
